theory Spec2Isabelle
  imports Complex_Main "HOL-Library.Word" "HOL-Library.AList" "HOL-Library.Sublist"
begin

section \<open>Screenshot comparison utility (visual/utils/screenshot\_compare.py)\<close>

text \<open>
  The module compares screenshots through the imaging library (PIL) and keeps
  baselines and diff artifacts as files. The embedding has three layers:
  \<^item> rasters as the library hands them out after \<open>Image.open(p).convert("RGB")\<close>:
    a size and three 8-bit channels per pixel;
  \<^item> the file store: directory entries in listing order, each holding either an
    encoded raster or bytes that are no image, and the set of entries the operating
    system refuses to unlink;
  \<^item> the methods of \<open>ScreenshotCompare\<close>, with every exception of the source as an
    \<open>Inl\<close> result and the store passed through explicitly.

  Python's \<open>/\<close> on two ints yields the double nearest to the exact quotient; the
  model keeps the exact quotient as a rational, and thresholds are rationals.

  A raster file has at least one pixel (PNG forbids a zero width or height). The model
  does not build this in: it lets a raster without pixels be stored and read, the
  division in \<open>compare_images\<close> raises on it, and every statement that needs a pixel
  says so. Writing a file never fails in the model; no statement below depends on a
  failed write.
\<close>

subsection \<open>Rasters\<close>

type_synonym pixel = "8 word \<times> 8 word \<times> 8 word"

text \<open>\<open>isize\<close> is PIL's \<open>img.size = (width, height)\<close>; \<open>pix img x y\<close> is the pixel in
  column \<open>x\<close> of row \<open>y\<close>. Only coordinates inside the size are ever read.\<close>

record image =
  isize :: "nat \<times> nat"
  pix :: "nat \<Rightarrow> nat \<Rightarrow> pixel"

definition width :: "image \<Rightarrow> nat" where
  "width img = fst (isize img)"

definition height :: "image \<Rightarrow> nat" where
  "height img = snd (isize img)"

text \<open>\<open>img.getdata()\<close>: the pixels row by row.\<close>

definition getdata :: "image \<Rightarrow> pixel list" where
  "getdata img = concat (map (\<lambda>y. map (\<lambda>x. pix img x y) [0..<width img]) [0..<height img])"

text \<open>\<open>sum(pixel)\<close> of an RGB tuple.\<close>

fun pixel_sum :: "pixel \<Rightarrow> nat" where
  "pixel_sum (r, g, b) = unat r + unat g + unat b"

text \<open>\<open>ImageChops.difference\<close>: \<open>abs(image1 - image2)\<close> per channel, on the common
  extent of the two rasters.\<close>

definition chan_difference :: "8 word \<Rightarrow> 8 word \<Rightarrow> 8 word" where
  "chan_difference a b = (if a \<le> b then b - a else a - b)"

fun pixel_difference :: "pixel \<Rightarrow> pixel \<Rightarrow> pixel" where
  "pixel_difference (r1, g1, b1) (r2, g2, b2) =
     (chan_difference r1 r2, chan_difference g1 g2, chan_difference b1 b2)"

definition ImageChops_difference :: "image \<Rightarrow> image \<Rightarrow> image" where
  "ImageChops_difference image1 image2 =
     \<lparr>isize = (min (width image1) (width image2), min (height image1) (height image2)),
      pix = (\<lambda>x y. pixel_difference (pix image1 x y) (pix image2 x y))\<rparr>"








subsection \<open>Errors and the file store\<close>

datatype error =
  FileNotFoundError
  | UnidentifiedImageError
  | ZeroDivisionError
  | PermissionError
  | ValueError

datatype content = Raster image | NotAnImage

record fsys =
  entries :: "(string \<times> content) list"
  undeletable :: "string set"

definition lookup :: "fsys \<Rightarrow> string \<Rightarrow> content option" where
  "lookup st p = map_of (entries st) p"

text \<open>\<open>path.exists()\<close>.\<close>

definition exists :: "fsys \<Rightarrow> string \<Rightarrow> bool" where
  "exists st p = (lookup st p \<noteq> None)"

text \<open>\<open>Image.open(path)\<close>, decoded. The stored raster is already the RGB view, so
  \<open>.convert("RGB")\<close> is the identity on it. A missing file and a file that is no image
  raise; the spec calls both \<open>DecodeError\<close>.\<close>

definition Image_open :: "fsys \<Rightarrow> string \<Rightarrow> error + image" where
  "Image_open st p =
     (case lookup st p of
        None \<Rightarrow> Inl FileNotFoundError
      | Some NotAnImage \<Rightarrow> Inl UnidentifiedImageError
      | Some (Raster img) \<Rightarrow> Inr img)"

text \<open>\<open>img.save(path)\<close>: creates the entry or replaces its content.\<close>

definition save :: "image \<Rightarrow> string \<Rightarrow> fsys \<Rightarrow> fsys" where
  "save img p st = st\<lparr>entries := AList.update p (Raster img) (entries st)\<rparr>"

text \<open>\<open>path.unlink()\<close>: raises when the entry is missing or may not be removed.\<close>

definition unlink :: "fsys \<Rightarrow> string \<Rightarrow> error + fsys" where
  "unlink st p =
     (if \<not> exists st p then Inl FileNotFoundError
      else if p \<in> undeletable st then Inl PermissionError
      else Inr (st\<lparr>entries := AList.delete p (entries st)\<rparr>))"

text \<open>\<open>Path(dir) / name\<close> and \<open>str\<close> of it, for a normalised directory and a plain
  file name.\<close>

definition joinpath :: "string \<Rightarrow> string \<Rightarrow> string" where
  "joinpath d n = d @ ''/'' @ n"

text \<open>\<open>dir.glob("*.png")\<close>: the direct children of \<open>dir\<close> whose name ends in \<open>.png\<close>, in
  listing order. The library reads the whole listing before it yields the first path.\<close>

definition is_png_child :: "string \<Rightarrow> string \<Rightarrow> bool" where
  "is_png_child d p =
     (prefix (d @ ''/'') p \<and>
      CHR ''/'' \<notin> set (drop (length d + 1) p) \<and>
      suffix ''.png'' (drop (length d + 1) p))"

definition glob_png :: "fsys \<Rightarrow> string \<Rightarrow> string list" where
  "glob_png st d = filter (is_png_child d) (remdups (map fst (entries st)))"

subsection \<open>ScreenshotCompare\<close>

record ScreenshotCompare =
  baseline_dir :: string
  diff_dir :: string

text \<open>\<open>compare_images\<close> (lines 30--65). It reads two files and writes none, so it
  returns no store.\<close>

definition compare_images ::
  "fsys \<Rightarrow> string \<Rightarrow> string \<Rightarrow> rat \<Rightarrow> bool \<Rightarrow> error + (bool \<times> rat)" where
  "compare_images st image1_path image2_path threshold ignore_antialiasing =
     (case Image_open st image1_path of
        Inl e \<Rightarrow> Inl e
      | Inr img1 \<Rightarrow>
     (case Image_open st image2_path of
        Inl e \<Rightarrow> Inl e
      | Inr img2 \<Rightarrow>
     if isize img1 \<noteq> isize img2 then Inr (False, 1)
     else
       let diff = ImageChops_difference img1 img2;
           diff_pixels = sum_list (map pixel_sum (getdata diff));
           total_pixels = fst (isize img1) * snd (isize img1) * 3 * 255
       in if total_pixels = 0 then Inl ZeroDivisionError
          else
            let difference = of_nat diff_pixels / of_nat total_pixels;
                is_similar = (difference \<le> threshold)
            in Inr (is_similar, difference)))"


text \<open>\<open>save_baseline\<close> (lines 109--122) and its alias \<open>update_baseline\<close> (166--176).\<close>

definition save_baseline ::
  "ScreenshotCompare \<Rightarrow> fsys \<Rightarrow> string \<Rightarrow> string \<Rightarrow> (error + string) \<times> fsys" where
  "save_baseline self st screenshot_path name =
     (let baseline_path = joinpath (baseline_dir self) (name @ ''.png'')
      in case Image_open st screenshot_path of
           Inl e \<Rightarrow> (Inl e, st)
         | Inr img \<Rightarrow> (Inr baseline_path, save img baseline_path st))"

definition update_baseline ::
  "ScreenshotCompare \<Rightarrow> fsys \<Rightarrow> string \<Rightarrow> string \<Rightarrow> (error + string) \<times> fsys" where
  "update_baseline self st screenshot_path name = save_baseline self st screenshot_path name"




text \<open>\<open>clear_diffs\<close> and \<open>clear_baselines\<close> (lines 249--257): one \<open>unlink\<close> per listed
  file, in order; an exception leaves the loop.\<close>

fun unlink_each :: "fsys \<Rightarrow> string list \<Rightarrow> (error + unit) \<times> fsys" where
  "unlink_each st [] = (Inr (), st)"
| "unlink_each st (p # ps) =
     (case unlink st p of
        Inl e \<Rightarrow> (Inl e, st)
      | Inr st' \<Rightarrow> unlink_each st' ps)"

definition clear_diffs :: "ScreenshotCompare \<Rightarrow> fsys \<Rightarrow> (error + unit) \<times> fsys" where
  "clear_diffs self st = unlink_each st (glob_png st (diff_dir self))"

definition clear_baselines :: "ScreenshotCompare \<Rightarrow> fsys \<Rightarrow> (error + unit) \<times> fsys" where
  "clear_baselines self st = unlink_each st (glob_png st (baseline_dir self))"

subsection \<open>The specification's words\<close>

text \<open>The absolute per-channel difference of two pixels, summed over the three
  channels, computed on the integers.\<close>

definition channel_distance :: "pixel \<Rightarrow> pixel \<Rightarrow> nat" where
  "channel_distance p q =
     (case p of (r1, g1, b1) \<Rightarrow> case q of (r2, g2, b2) \<Rightarrow>
        nat \<bar>int (unat r1) - int (unat r2)\<bar> + nat \<bar>int (unat g1) - int (unat g2)\<bar> +
        nat \<bar>int (unat b1) - int (unat b2)\<bar>)"

text \<open>The sum of these over all pixels, divided by
  \<open>width \<times> height \<times> 3 channels \<times> 255\<close>.\<close>

definition spec_difference_ratio :: "image \<Rightarrow> image \<Rightarrow> rat" where
  "spec_difference_ratio a b =
     of_nat (\<Sum>y<height a. \<Sum>x<width a. channel_distance (pix a x y) (pix b x y)) /
     of_nat (width a * height a * 3 * 255)"


subsection \<open>Sample rasters and stores\<close>

text \<open>A raster of one colour, as \<open>Image.new("RGB", size, colour)\<close> makes it.\<close>

definition solid :: "nat \<times> nat \<Rightarrow> pixel \<Rightarrow> image" where
  "solid s c = \<lparr>isize = s, pix = (\<lambda>x y. c)\<rparr>"


definition small_store :: fsys where
  "small_store = \<lparr>entries = [(''shot.png'', Raster (solid (1, 1) (255, 255, 255))),
                             (''wide.png'', Raster (solid (2, 1) (255, 255, 255))),
                             (''dark.png'', Raster (solid (1, 1) (0, 0, 0)))],
                  undeletable = {}\<rparr>"




text \<open>A diff directory in which the first listed file may not be unlinked.\<close>

definition pinned_store :: fsys where
  "pinned_store = \<lparr>entries = [(''visual/diffs/a_diff.png'', Raster (solid (1, 1) (0, 0, 0))),
                              (''visual/diffs/b_diff.png'', Raster (solid (1, 1) (0, 0, 0))),
                              (''visual/baselines/home.png'', Raster (solid (1, 1) (0, 0, 0)))],
                   undeletable = {''visual/diffs/a_diff.png''}\<rparr>"



text \<open>The comparator with the directories of the constructor's defaults.\<close>

definition default_dirs :: ScreenshotCompare where
  "default_dirs = \<lparr>baseline_dir = ''visual/baselines'', diff_dir = ''visual/diffs''\<rparr>"


section \<open>Properties\<close>

subsection \<open>The pixel sum\<close>

lemma unat_chan_difference:
  "unat (chan_difference a b) = nat \<bar>int (unat a) - int (unat b)\<bar>"
proof (cases "a \<le> b")
  case True
  then have le: "unat a \<le> unat b" by (simp add: word_le_nat_alt)
  from True have "unat (chan_difference a b) = unat b - unat a"
    by (simp add: chan_difference_def unat_sub)
  also from le have "\<dots> = nat \<bar>int (unat a) - int (unat b)\<bar>" by arith
  finally show ?thesis .
next
  case False
  then have le: "unat b \<le> unat a" by (simp add: word_le_nat_alt)
  from False have "b \<le> a" by simp
  with False have "unat (chan_difference a b) = unat a - unat b"
    by (simp add: chan_difference_def unat_sub)
  also from le have "\<dots> = nat \<bar>int (unat a) - int (unat b)\<bar>" by arith
  finally show ?thesis .
qed

lemma pixel_sum_difference: "pixel_sum (pixel_difference p q) = channel_distance p q"
  by (cases p; cases q) (simp add: channel_distance_def unat_chan_difference)

lemma channel_distance_self: "channel_distance p p = 0"
  by (cases p) (simp add: channel_distance_def)

lemma sum_list_concat_map:
  "sum_list (concat (map g ys)) = sum_list (map (\<lambda>y. sum_list (g y)) ys)"
  by (induction ys) simp_all

lemma sum_getdata:
  "sum_list (map f (getdata img)) = (\<Sum>y<height img. \<Sum>x<width img. f (pix img x y))"
  unfolding getdata_def
  by (simp add: map_concat sum_list_concat_map comp_def interv_sum_list_conv_sum_set_nat
      atLeast0LessThan)

lemma compare_images_equal_size:
  assumes "Image_open st p1 = Inr a" "Image_open st p2 = Inr b" "isize a = isize b"
    "0 < width a * height a"
  shows "compare_images st p1 p2 t f =
    Inr (spec_difference_ratio a b \<le> t, spec_difference_ratio a b)"
proof -
  have "sum_list (map pixel_sum (getdata (ImageChops_difference a b))) =
        (\<Sum>y<height a. \<Sum>x<width a. channel_distance (pix a x y) (pix b x y))"
    by (simp add: sum_getdata ImageChops_difference_def width_def height_def assms(3)
        pixel_sum_difference)
  moreover have "fst (isize a) * snd (isize a) * 3 * 255 = width a * height a * 3 * 255"
    by (simp add: width_def height_def)
  ultimately show ?thesis
    using assms by (simp add: compare_images_def spec_difference_ratio_def Let_def)
qed

text \<open>On a raster without pixels the normalising total is zero and the division raises.\<close>

lemma compare_images_no_pixels:
  assumes "Image_open st p1 = Inr a" "Image_open st p2 = Inr b" "isize a = isize b"
    "width a * height a = 0"
  shows "compare_images st p1 p2 t f = Inl ZeroDivisionError"
  using assms by (auto simp: compare_images_def width_def height_def Let_def)

subsection \<open>The file store and its paths\<close>






subsection \<open>Whole-image comparison\<close>



text \<open>
  C2. For two decodable images whose pixel dimensions differ, \<open>compare_images\<close>
  returns \<open>(False, 1.0)\<close>, whatever the pixels and whatever the threshold; nothing is
  resized or partly compared.
\<close>

theorem c2_dimension_mismatch:
  assumes "Image_open st p1 = Inr a" "Image_open st p2 = Inr b" "isize a \<noteq> isize b"
  shows "compare_images st p1 p2 t f = Inr (False, 1)"
  using assms by (simp add: compare_images_def)

theorem c2_dimension_mismatch_witness:
  "Image_open small_store ''shot.png'' = Inr (solid (1, 1) (255, 255, 255)) \<and>
   Image_open small_store ''wide.png'' = Inr (solid (2, 1) (255, 255, 255)) \<and>
   isize (solid (1, 1) (255, 255, 255)) \<noteq> isize (solid (2, 1) (255, 255, 255)) \<and>
   compare_images small_store ''shot.png'' ''wide.png'' 5 True = Inr (False, 1)"
proof -
  have o1: "Image_open small_store ''shot.png'' = Inr (solid (1, 1) (255, 255, 255))"
    by (simp add: small_store_def Image_open_def lookup_def)
  have o2: "Image_open small_store ''wide.png'' = Inr (solid (2, 1) (255, 255, 255))"
    by (simp add: small_store_def Image_open_def lookup_def)
  have ne: "isize (solid (1, 1) (255, 255, 255)) \<noteq> isize (solid (2, 1) (255, 255, 255))"
    by (simp add: solid_def)
  from c2_dimension_mismatch [OF o1 o2 ne, of 5 True] o1 o2 ne show ?thesis by simp
qed

text \<open>
  C9. For a decodable image \<open>X\<close> (with at least one pixel) and a threshold that is not
  negative, \<open>compare_images(X, X, threshold)\<close> returns \<open>(True, 0.0)\<close>. The two paths may
  be one path or two files holding the same raster.
\<close>

theorem c9_identity:
  assumes "Image_open st p1 = Inr a" "Image_open st p2 = Inr a"
    "0 < width a * height a" "0 \<le> t"
  shows "compare_images st p1 p2 t f = Inr (True, 0)"
proof -
  have "spec_difference_ratio a a = 0"
    by (simp add: spec_difference_ratio_def channel_distance_self)
  with assms show ?thesis
    using compare_images_equal_size [of st p1 a p2 a t f] by simp
qed

theorem c9_identity_witness:
  "Image_open small_store ''dark.png'' = Inr (solid (1, 1) (0, 0, 0)) \<and>
   0 < width (solid (1, 1) (0, 0, 0)) * height (solid (1, 1) (0, 0, 0)) \<and>
   (0::rat) \<le> 0 \<and>
   compare_images small_store ''dark.png'' ''dark.png'' 0 True = Inr (True, 0)"
proof -
  have o: "Image_open small_store ''dark.png'' = Inr (solid (1, 1) (0, 0, 0))"
    by (simp add: small_store_def Image_open_def lookup_def)
  have ne: "0 < width (solid (1, 1) (0, 0, 0)) * height (solid (1, 1) (0, 0, 0))"
    by (simp add: solid_def width_def height_def)
  have t: "(0::rat) \<le> 0" by simp
  from c9_identity [OF o o ne t, of True] o ne show ?thesis by simp
qed

text \<open>
  C10. Two calls of \<open>compare_images\<close> that differ only in \<open>ignore_antialiasing\<close>
  return the same result: the flag is never read.
\<close>

theorem c10_ignore_antialiasing_unused:
  "compare_images st p1 p2 t True = compare_images st p1 p2 t False"
  by (simp add: compare_images_def)

subsection \<open>Baselines\<close>












subsection \<open>The diff artifact\<close>





subsection \<open>Temporary files of the region comparison\<close>

lemma unlink_Inr:
  assumes "unlink st p = Inr st'"
  shows "lookup st' q = (if q = p then None else lookup st q)"
    and "undeletable st' = undeletable st"
  using assms by (auto simp: unlink_def lookup_def delete_conv' split: if_splits)










subsection \<open>Housekeeping\<close>

lemma unlink_each_result:
  assumes "distinct ps" "\<forall>p\<in>set ps. exists st p"
  shows "fst (unlink_each st ps) =
           (if set ps \<inter> undeletable st = {} then Inr () else Inl PermissionError) \<and>
         (\<forall>q. lookup (snd (unlink_each st ps)) q =
           (if q \<in> set (takeWhile (\<lambda>p. p \<notin> undeletable st) ps) then None else lookup st q))"
  using assms
proof (induction ps arbitrary: st)
  case Nil
  then show ?case by simp
next
  case (Cons p ps)
  show ?case
  proof (cases "p \<in> undeletable st")
    case True
    with Cons.prems show ?thesis by (auto simp: unlink_def)
  next
    case False
    define st' where "st' = st\<lparr>entries := AList.delete p (entries st)\<rparr>"
    have u: "unlink st p = Inr st'"
      using Cons.prems False by (simp add: unlink_def st'_def)
    have lk: "lookup st' q = (if q = p then None else lookup st q)" for q
      using unlink_Inr(1) [OF u] .
    have ud: "undeletable st' = undeletable st"
      using unlink_Inr(2) [OF u] .
    have d: "distinct ps" and np: "p \<notin> set ps" using Cons.prems(1) by simp_all
    have ex: "\<forall>q\<in>set ps. exists st' q"
      using Cons.prems(2) np by (auto simp: exists_def lk)
    from Cons.IH [OF d ex] u False np show ?thesis
      by (auto simp: ud lk)
  qed
qed

lemma glob_png_listing:
  "distinct (glob_png st d) \<and> (\<forall>p\<in>set (glob_png st d). exists st p)"
  by (auto simp: glob_png_def exists_def lookup_def map_of_eq_None_iff)

lemma glob_pinned:
  "glob_png pinned_store ''visual/diffs'' =
     [''visual/diffs/a_diff.png'', ''visual/diffs/b_diff.png'']"
  by (simp add: glob_png_def pinned_store_def is_png_child_def suffix_def)

text \<open>
  C6, as the code has it. \<open>clear_diffs\<close> and \<open>clear_baselines\<close> unlink the \<open>.png\<close>
  files of their directory one after the other in listing order, with no exception
  handler: they succeed when every listed file can be unlinked, and otherwise raise at
  the first file that cannot. Exactly the files listed before that one are gone; that
  file and all files listed after it are untouched.
\<close>

theorem c6_clear_stops_at_first_failure:
  "fst (clear_diffs self st) =
     (if set (glob_png st (diff_dir self)) \<inter> undeletable st = {} then Inr ()
      else Inl PermissionError) \<and>
   (\<forall>q. lookup (snd (clear_diffs self st)) q =
     (if q \<in> set (takeWhile (\<lambda>p. p \<notin> undeletable st) (glob_png st (diff_dir self)))
      then None else lookup st q)) \<and>
   fst (clear_baselines self st) =
     (if set (glob_png st (baseline_dir self)) \<inter> undeletable st = {} then Inr ()
      else Inl PermissionError) \<and>
   (\<forall>q. lookup (snd (clear_baselines self st)) q =
     (if q \<in> set (takeWhile (\<lambda>p. p \<notin> undeletable st) (glob_png st (baseline_dir self)))
      then None else lookup st q))"
proof -
  have "distinct (glob_png st d)" "\<forall>p\<in>set (glob_png st d). exists st p" for d
    using glob_png_listing [of st d] by simp_all
  then show ?thesis
    unfolding clear_diffs_def clear_baselines_def
    using unlink_each_result [of "glob_png st (diff_dir self)" st]
      unlink_each_result [of "glob_png st (baseline_dir self)" st]
    by simp
qed

theorem c6_clear_stops_at_first_failure_witness:
  "fst (clear_diffs default_dirs pinned_store) = Inl PermissionError \<and>
   lookup (snd (clear_diffs default_dirs pinned_store)) ''visual/diffs/b_diff.png'' =
     Some (Raster (solid (1, 1) (0, 0, 0))) \<and>
   fst (clear_baselines default_dirs pinned_store) = Inr () \<and>
   lookup (snd (clear_baselines default_dirs pinned_store)) ''visual/baselines/home.png'' = None \<and>
   lookup (snd (clear_baselines default_dirs pinned_store)) ''visual/diffs/b_diff.png'' =
     Some (Raster (solid (1, 1) (0, 0, 0)))"
proof -
  have gd: "glob_png pinned_store (diff_dir default_dirs) =
     [''visual/diffs/a_diff.png'', ''visual/diffs/b_diff.png'']"
    by (simp add: glob_png_def pinned_store_def is_png_child_def suffix_def default_dirs_def)
  have gb: "glob_png pinned_store (baseline_dir default_dirs) = [''visual/baselines/home.png'']"
    by (simp add: glob_png_def pinned_store_def is_png_child_def suffix_def default_dirs_def)
  have ud: "undeletable pinned_store = {''visual/diffs/a_diff.png''}"
    by (simp add: pinned_store_def)
  have lb: "lookup pinned_store ''visual/diffs/b_diff.png'' = Some (Raster (solid (1, 1) (0, 0, 0)))"
    by (simp add: lookup_def pinned_store_def)
  from c6_clear_stops_at_first_failure [of default_dirs pinned_store]
  show ?thesis unfolding gd gb ud by (simp add: lb)
qed

text \<open>
  C6, as the specification states it (a failed deletion does not abort the remaining
  deletions), fails: the first listed file cannot be unlinked, the loop ends there, and
  the second file, which could be unlinked, is still in the directory.
\<close>

theorem c6_counterexample:
  "clear_diffs default_dirs pinned_store = (Inl PermissionError, pinned_store) \<and>
   ''visual/diffs/b_diff.png'' \<notin> undeletable pinned_store \<and>
   exists (snd (clear_diffs default_dirs pinned_store)) ''visual/diffs/b_diff.png''"
proof -
  have g: "glob_png pinned_store (diff_dir default_dirs) =
     [''visual/diffs/a_diff.png'', ''visual/diffs/b_diff.png'']"
    using glob_pinned by (simp add: default_dirs_def)
  have u: "unlink pinned_store ''visual/diffs/a_diff.png'' = Inl PermissionError"
    by (simp add: unlink_def exists_def lookup_def pinned_store_def)
  have r: "clear_diffs default_dirs pinned_store = (Inl PermissionError, pinned_store)"
    unfolding clear_diffs_def g by (simp add: u)
  have "''visual/diffs/b_diff.png'' \<notin> undeletable pinned_store"
    by (simp add: pinned_store_def)
  moreover have "exists pinned_store ''visual/diffs/b_diff.png''"
    by (simp add: exists_def lookup_def pinned_store_def)
  ultimately show ?thesis unfolding r by simp
qed

end
